theory Spec2Isabelle
  imports Main "HOL-Library.Sublist" "HOL-Library.AList"
begin

section \<open>The ergogen command line: input resolution, output writers, watch loop\<close>

text \<open>
  A shallow embedding of \<^verbatim>\<open>src/cli.js\<close>. The program is a thin shell around
  collaborators that are not part of the file: the engine (\<^verbatim>\<open>ergogen.inject\<close>,
  \<^verbatim>\<open>ergogen.process\<close>), the bundle splitter (\<^verbatim>\<open>io.unpack\<close>), the archive
  loader (\<^verbatim>\<open>jszip.loadAsync\<close>), the YAML dumper (\<^verbatim>\<open>yaml.dump\<close>) and the
  file system. The collaborators are fields of a \<open>host\<close> record, so every statement
  below holds for all of them; the file system read by the resolver is a tree; every
  effect of the program (console lines, engine calls, directory creation, file writes)
  is an event appended to a trace.
\<close>

subsection \<open>JavaScript values\<close>

text \<open>
  The values the engine hands back. \<open>Num 0\<close> stands for both zeros of JavaScript;
  of a number only whether it is zero, non-zero or \<open>NaN\<close> matters to the program.
  The pairs of an \<open>Obj\<close> are its own enumerable properties in enumeration order.
\<close>

datatype jsval =
    Undefined
  | Null
  | Bool bool
  | Num int
  | NaN
  | Str string
  | Arr "jsval list"
  | Obj "(string \<times> jsval) list"

text \<open>\<^verbatim>\<open>!data\<close> is \<open>\<not> truthy data\<close>.\<close>

fun truthy :: "jsval \<Rightarrow> bool" where
  "truthy Undefined = False"
| "truthy Null = False"
| "truthy (Bool b) = b"
| "truthy (Num n) = (n \<noteq> 0)"
| "truthy NaN = False"
| "truthy (Str s) = (s \<noteq> [])"
| "truthy (Arr vs) = True"
| "truthy (Obj kvs) = True"

datatype error =
    ENOENT
  | EISDIR
  | ENOTDIR
  | EACCES
  | TypeError
  | Thrown string

subsection \<open>Effects\<close>

type_synonym injection = "string \<times> string \<times> string"

datatype event =
    Log string
  | LogError string
  | LogThrown error
  | Inject injection
  | Process string bool
  | Remove string
  | Mkdirp string
  | WriteFile string string

text \<open>
  A computation takes the trace so far and returns its outcome (\<open>Inl\<close>: an
  exception is in flight) with the extended trace. What was done before a throw
  stays done.
\<close>

type_synonym 'a io = "event list \<Rightarrow> (error + 'a) \<times> event list"

definition io_return :: "'a \<Rightarrow> 'a io" where
  "io_return x t = (Inr x, t)"

definition io_throw :: "error \<Rightarrow> 'a io" where
  "io_throw e t = (Inl e, t)"

definition io_bind :: "'a io \<Rightarrow> ('a \<Rightarrow> 'b io) \<Rightarrow> 'b io" where
  "io_bind m f t = (case m t of (Inl e, t') \<Rightarrow> (Inl e, t') | (Inr x, t') \<Rightarrow> f x t')"

definition io_then :: "'a io \<Rightarrow> 'b io \<Rightarrow> 'b io" where
  "io_then m n = io_bind m (\<lambda>_. n)"

definition io_catch :: "'a io \<Rightarrow> (error \<Rightarrow> 'a io) \<Rightarrow> 'a io" where
  "io_catch m handler t = (case m t of (Inl e, t') \<Rightarrow> handler e t' | (Inr x, t') \<Rightarrow> (Inr x, t'))"

definition emit :: "event \<Rightarrow> unit io" where
  "emit ev t = (Inr (), t @ [ev])"

definition io_lift :: "error + 'a \<Rightarrow> 'a io" where
  "io_lift r t = (r, t)"

definition console_log :: "string \<Rightarrow> unit io" where
  "console_log s = emit (Log s)"

definition console_error :: "string \<Rightarrow> unit io" where
  "console_error s = emit (LogError s)"

fun injected :: "event list \<Rightarrow> injection list" where
  "injected [] = []"
| "injected (Inject i # t) = i # injected t"
| "injected (_ # t) = injected t"

subsection \<open>The host: everything \<^verbatim>\<open>cli.js\<close> requires\<close>

text \<open>
  A file entry holds what reading its data yields: the bytes, or the error of a
  stream that cannot be read.
\<close>

datatype zentry = ZFolder | ZFile "error + string"

text \<open>
  The \<^verbatim>\<open>files\<close> table of a JSZip object: entry name to entry, listed in the order
  the names were first inserted; a folder's name ends in a slash. In which order the
  object enumerates its names (names that look like integers come first) is left to
  its reader, \<open>io_unpack\<close>, which is any function of this list.
\<close>

type_synonym jszip = "(string \<times> zentry) list"

datatype rejection_mode = Throw | Warn

text \<open>
  \<^item> \<open>unhandled_rejections\<close>: what Node does with a rejected promise nobody handles
    (\<^verbatim>\<open>--unhandled-rejections\<close>; \<open>Throw\<close>, the default from Node 15 on, ends the
    process with exit code 1; \<open>Warn\<close> prints a warning and goes on);
  \<^item> \<open>ergogen_inject\<close> and \<open>ergogen_process\<close> see the injections handed to the
    engine so far: the engine keeps them in a process-wide table;
  \<^item> \<open>yaml_dump\<close> takes the options \<^verbatim>\<open>indent\<close> and \<^verbatim>\<open>noRefs\<close>;
  \<^item> \<open>fs_fault\<close> says whether an operation on the output tree fails, given all
    that happened before it.
\<close>

record host =
  cwd :: string
  pkg_version :: string
  unhandled_rejections :: rejection_mode
  jszip_loadAsync :: "string \<Rightarrow> error + jszip"
  io_unpack :: "jszip \<Rightarrow> error + (string \<times> injection list)"
  ergogen_inject :: "injection list \<Rightarrow> injection \<Rightarrow> error option"
  ergogen_process :: "injection list \<Rightarrow> string \<Rightarrow> bool \<Rightarrow> string list \<times> (error + jsval)"
  yaml_dump :: "nat \<Rightarrow> bool \<Rightarrow> jsval \<Rightarrow> error + string"
  fs_fault :: "event list \<Rightarrow> event \<Rightarrow> error option"

subsection \<open>Strings and POSIX paths\<close>

definition endsWith :: "string \<Rightarrow> string \<Rightarrow> bool" where
  "endsWith s suf = (length suf \<le> length s \<and> drop (length s - length suf) s = suf)"

text \<open>\<^verbatim>\<open>s.replace(pat, rep)\<close> with a string pattern: the first occurrence only.\<close>

fun replace_first :: "string \<Rightarrow> string \<Rightarrow> string \<Rightarrow> string" where
  "replace_first pat rep [] = (if pat = [] then rep else [])"
| "replace_first pat rep (c # cs) =
     (if prefix pat (c # cs) then rep @ drop (length pat) (c # cs)
      else c # replace_first pat rep cs)"

text \<open>\<^verbatim>\<open>s.split('/')\<close>: never empty, \<open>''''\<close> splits into one empty piece.\<close>

fun split_sep :: "string \<Rightarrow> string list" where
  "split_sep [] = [[]]"
| "split_sep (c # cs) =
     (if c = CHR ''/'' then [] # split_sep cs
      else (case split_sep cs of [] \<Rightarrow> [[c]] | p # ps \<Rightarrow> (c # p) # ps))"

fun join_sep :: "string list \<Rightarrow> string" where
  "join_sep [] = []"
| "join_sep [s] = s"
| "join_sep (s # ss) = s @ ''/'' @ join_sep ss"

text \<open>
  Node's \<^verbatim>\<open>normalizeString\<close>: drops empty and \<^verbatim>\<open>.\<close> segments, lets \<^verbatim>\<open>..\<close>
  remove the segment before it; above the start of a relative path \<^verbatim>\<open>..\<close> stays.
  The accumulator holds the kept segments, last first.
\<close>

fun normalize_segments :: "bool \<Rightarrow> string list \<Rightarrow> string list \<Rightarrow> string list" where
  "normalize_segments allowAboveRoot acc [] = rev acc"
| "normalize_segments allowAboveRoot acc (s # ss) =
     (if s = [] \<or> s = ''.'' then normalize_segments allowAboveRoot acc ss
      else if s = ''..'' then
        (case acc of
           [] \<Rightarrow> normalize_segments allowAboveRoot (if allowAboveRoot then [''..''] else []) ss
         | a # as \<Rightarrow>
             if a = ''..'' then normalize_segments allowAboveRoot (''..'' # acc) ss
             else normalize_segments allowAboveRoot as ss)
      else normalize_segments allowAboveRoot (s # acc) ss)"

definition path_normalize :: "string \<Rightarrow> string" where
  "path_normalize p =
     (if p = [] then ''.''
      else
        let isAbsolute = (hd p = CHR ''/'');
            trailing = (last p = CHR ''/'');
            body = join_sep (normalize_segments (\<not> isAbsolute) [] (split_sep p))
        in if body = [] then (if isAbsolute then ''/'' else if trailing then ''./'' else ''.'')
           else (if isAbsolute then ''/'' else []) @ body @ (if trailing then ''/'' else []))"

text \<open>\<^verbatim>\<open>path.join\<close>: the non-empty arguments joined by a slash, then normalized.\<close>

definition path_join :: "string list \<Rightarrow> string" where
  "path_join parts = path_normalize (join_sep (filter (\<lambda>s. s \<noteq> []) parts))"

text \<open>
  \<^verbatim>\<open>path.resolve\<close>: from the working directory, each absolute argument restarts the
  path, each relative one is appended; the result is absolute, normalized and has no
  trailing slash.
\<close>

definition path_resolve :: "string \<Rightarrow> string list \<Rightarrow> string" where
  "path_resolve wd parts =
     CHR ''/'' # join_sep (normalize_segments False []
       (split_sep (foldl (\<lambda>acc p. if p = [] then acc
                                   else if hd p = CHR ''/'' then p
                                   else acc @ ''/'' @ p) wd parts)))"

text \<open>
  \<^verbatim>\<open>path.dirname\<close>: trailing slashes and the last segment go; the character at
  index 0 is never examined by the scan.
\<close>

definition path_dirname :: "string \<Rightarrow> string" where
  "path_dirname p =
     (if p = [] then ''.''
      else
        let hasRoot = (hd p = CHR ''/'');
            r = dropWhile (\<lambda>c. c \<noteq> CHR ''/'') (dropWhile (\<lambda>c. c = CHR ''/'') (rev (tl p)))
        in if r = [] then (if hasRoot then ''/'' else ''.'')
           else if hasRoot \<and> length r = 1 then ''//''
           else take (length r) p)"

definition path_basename :: "string \<Rightarrow> string" where
  "path_basename p =
     rev (takeWhile (\<lambda>c. c \<noteq> CHR ''/'') (dropWhile (\<lambda>c. c = CHR ''/'') (rev p)))"

subsection \<open>The file system read by the resolver\<close>

text \<open>
  A tree: a file with its content, a directory with its entries in the order
  \<^verbatim>\<open>readdir\<close> lists them, or a directory that can be neither listed nor entered
  (\<open>Locked\<close>).
\<close>

datatype fnode = File string | Dir "(string \<times> fnode) list" | Locked

text \<open>
  Path resolution as the operating system does it, segment by segment from the
  root (the stack holds the directories entered, the current one first): every
  segment, also an empty one after a trailing slash, needs a directory before it;
  \<^verbatim>\<open>..\<close> goes back up (and stays at the root); a name must be an entry. A relative
  path starts at the working directory; the empty path names nothing.
\<close>

fun resolve_path :: "fnode list \<Rightarrow> string list \<Rightarrow> error + fnode" where
  "resolve_path [] ss = Inl ENOENT"
| "resolve_path (n # up) [] = Inr n"
| "resolve_path (n # up) (s # ss) =
     (case n of
        File c \<Rightarrow> Inl ENOTDIR
      | Locked \<Rightarrow> if s = [] then resolve_path (n # up) ss else Inl EACCES
      | Dir es \<Rightarrow>
          if s = [] \<or> s = ''.'' then resolve_path (n # up) ss
          else if s = ''..'' then resolve_path (if up = [] then [n] else up) ss
          else (case map_of es s of
                  None \<Rightarrow> Inl ENOENT
                | Some c \<Rightarrow> resolve_path (c # n # up) ss))"

definition fs_node :: "host \<Rightarrow> fnode \<Rightarrow> string \<Rightarrow> error + fnode" where
  "fs_node h root p =
     (if p = [] then Inl ENOENT
      else resolve_path [root]
             (split_sep (if hd p = CHR ''/'' then p else cwd h @ ''/'' @ p)))"

definition existsSync :: "host \<Rightarrow> fnode \<Rightarrow> string \<Rightarrow> bool" where
  "existsSync h root p = (case fs_node h root p of Inl e \<Rightarrow> False | Inr n \<Rightarrow> True)"

definition readFileSync :: "host \<Rightarrow> fnode \<Rightarrow> string \<Rightarrow> error + string" where
  "readFileSync h root p =
     (case fs_node h root p of
        Inl e \<Rightarrow> Inl e
      | Inr (File c) \<Rightarrow> Inr c
      | Inr (Dir es) \<Rightarrow> Inl EISDIR
      | Inr Locked \<Rightarrow> Inl EISDIR)"

fun isDirectory :: "fnode \<Rightarrow> bool" where
  "isDirectory (File c) = False"
| "isDirectory (Dir es) = True"
| "isDirectory Locked = True"

text \<open>\<^verbatim>\<open>fs.statSync(p).isDirectory()\<close>\<close>

definition statSync_isDirectory :: "host \<Rightarrow> fnode \<Rightarrow> string \<Rightarrow> error + bool" where
  "statSync_isDirectory h root p =
     (case fs_node h root p of Inl e \<Rightarrow> Inl e | Inr n \<Rightarrow> Inr (isDirectory n))"

text \<open>
  \<^verbatim>\<open>fs.createReadStream\<close> opens lazily: the entry gets what reading the stream
  will yield.
\<close>

definition createReadStream :: "host \<Rightarrow> fnode \<Rightarrow> string \<Rightarrow> error + string" where
  "createReadStream h root p = readFileSync h root p"

subsection \<open>Input helpers\<close>

text \<open>
  \<^verbatim>\<open>list_files_in_dir\<close>: the flat array of the absolute paths of all files under
  \<open>dir\<close>. The node is the tree found at \<open>dir\<close>: \<^verbatim>\<open>readdir\<close> lists its entries
  and \<^verbatim>\<open>stat\<close> of an entry's full path finds the entry's node. The first failure
  rejects the whole listing.
\<close>

fun list_files_in_dir :: "host \<Rightarrow> string \<Rightarrow> fnode \<Rightarrow> error + string list"
and stat_each :: "host \<Rightarrow> string \<Rightarrow> (string \<times> fnode) list \<Rightarrow> error + string list" where
  "list_files_in_dir h dir (File c) = Inl ENOTDIR"
| "list_files_in_dir h dir Locked = Inl EACCES"
| "list_files_in_dir h dir (Dir es) = stat_each h dir es"
| "stat_each h dir [] = Inr []"
| "stat_each h dir ((file, n) # es) =
     (let fullPath = path_resolve (cwd h) [dir, file] in
      case (if isDirectory n then list_files_in_dir h fullPath n else Inr [fullPath]) of
        Inl e \<Rightarrow> Inl e
      | Inr ps \<Rightarrow> (case stat_each h dir es of Inl e \<Rightarrow> Inl e | Inr qs \<Rightarrow> Inr (ps @ qs)))"

text \<open>JSZip: folder names end in a slash; a new entry creates its parent folders.\<close>

definition forceTrailingSlash :: "string \<Rightarrow> string" where
  "forceTrailingSlash p = (if p \<noteq> [] \<and> last p = CHR ''/'' then p else p @ ''/'')"

definition parentFolder :: "string \<Rightarrow> string" where
  "parentFolder p =
     (let q = (if p \<noteq> [] \<and> last p = CHR ''/'' then butlast p else p);
          r = dropWhile (\<lambda>c. c \<noteq> CHR ''/'') (rev q)
      in if 1 < length r then take (length r - 1) q else [])"

lemma parentFolder_shorter:
  "parentFolder (forceTrailingSlash p) \<noteq> [] \<Longrightarrow>
   length (parentFolder (forceTrailingSlash p)) < length p"
proof -
  assume ne: "parentFolder (forceTrailingSlash p) \<noteq> []"
  define q where "q = (if p \<noteq> [] \<and> last p = CHR ''/'' then butlast p else p)"
  define r where "r = dropWhile (\<lambda>c. c \<noteq> CHR ''/'') (rev q)"
  have pf: "parentFolder (forceTrailingSlash p) = (if 1 < length r then take (length r - 1) q else [])"
    by (simp add: parentFolder_def forceTrailingSlash_def q_def r_def Let_def)
  have "length r \<le> length (rev q)"
    unfolding r_def by (rule length_dropWhile_le)
  then have rq: "length r \<le> length q" by simp
  have qp: "length q \<le> length p" by (simp add: q_def)
  from ne pf have "1 < length r" by (simp split: if_splits)
  with pf rq qp show ?thesis by simp
qed

function folderAdd :: "string \<Rightarrow> jszip \<Rightarrow> jszip" where
  "folderAdd name files =
     (let n = forceTrailingSlash name in
      if map_of files n \<noteq> None then files
      else AList.update n ZFolder
             (if parentFolder n \<noteq> [] then folderAdd (parentFolder n) files else files))"
  by pat_completeness auto
termination
  by (relation "measure (\<lambda>(name, files). length name)") (auto simp: parentFolder_shorter)

definition fileAdd :: "string \<Rightarrow> error + string \<Rightarrow> jszip \<Rightarrow> jszip" where
  "fileAdd name data files =
     AList.update name (ZFile data)
       (if parentFolder name \<noteq> [] then folderAdd (parentFolder name) files else files)"

text \<open>
  A JSZip handle is the shared \<^verbatim>\<open>files\<close> table with the handle's \<^verbatim>\<open>root\<close>
  prefix. \<^verbatim>\<open>zf.folder(name)\<close> returns the handle itself for an empty name.
\<close>

definition zip_folder :: "jszip \<times> string \<Rightarrow> string \<Rightarrow> jszip \<times> string" where
  "zip_folder zf dirName =
     (if dirName = [] then zf
      else (folderAdd (snd zf @ dirName) (fst zf), forceTrailingSlash (snd zf @ dirName)))"

definition zip_file :: "jszip \<times> string \<Rightarrow> string \<Rightarrow> error + string \<Rightarrow> jszip" where
  "zip_file zf name data = fileAdd (snd zf @ name) data (fst zf)"

text \<open>
  \<^verbatim>\<open>zip_from_dir\<close>: an in-memory zip of a folder. The outer \<^verbatim>\<open>reduce\<close> threads
  the zip over the file paths, the inner one walks down the folder chain.
\<close>

definition zip_add_path :: "host \<Rightarrow> fnode \<Rightarrow> string \<Rightarrow> jszip \<Rightarrow> string \<Rightarrow> jszip" where
  "zip_add_path h root absRoot z filePath =
     (let relative = replace_first absRoot [] filePath;
          zipFolder = foldl zip_folder (z, []) (split_sep (path_dirname relative))
      in zip_file zipFolder (path_basename filePath) (createReadStream h root filePath))"

definition zip_from_dir :: "host \<Rightarrow> fnode \<Rightarrow> string \<Rightarrow> error + jszip" where
  "zip_from_dir h root dir =
     (let absRoot = path_resolve (cwd h) [dir] in
      case fs_node h root dir of
        Inl e \<Rightarrow> Inl e
      | Inr n \<Rightarrow>
          (case list_files_in_dir h dir n of
             Inl e \<Rightarrow> Inl e
           | Inr filePaths \<Rightarrow> Inr (foldl (zip_add_path h root absRoot) [] filePaths)))"

subsection \<open>Output helpers\<close>

text \<open>
  An operation on the output tree either fails, leaving no event, or is recorded.
  \<^verbatim>\<open>fs.writeFileSync\<close> takes text (or bytes) only: any other data is a
  \<^verbatim>\<open>TypeError\<close>.
\<close>

definition fs_do :: "host \<Rightarrow> event \<Rightarrow> unit io" where
  "fs_do h ev t = (case fs_fault h t ev of Some e \<Rightarrow> (Inl e, t) | None \<Rightarrow> (Inr (), t @ [ev]))"

definition removeSync :: "host \<Rightarrow> string \<Rightarrow> unit io" where
  "removeSync h p = fs_do h (Remove p)"

definition mkdirpSync :: "host \<Rightarrow> string \<Rightarrow> unit io" where
  "mkdirpSync h p = fs_do h (Mkdirp p)"

definition writeFileSync :: "host \<Rightarrow> string \<Rightarrow> jsval \<Rightarrow> unit io" where
  "writeFileSync h p data =
     (case data of Str s \<Rightarrow> fs_do h (WriteFile p s) | _ \<Rightarrow> io_throw TypeError)"

text \<open>\<^verbatim>\<open>yaml.dump(data, {indent: 4, noRefs: true})\<close>\<close>

definition yamldump :: "host \<Rightarrow> jsval \<Rightarrow> jsval io" where
  "yamldump h data =
     (case yaml_dump h 4 True data of Inl e \<Rightarrow> io_throw e | Inr s \<Rightarrow> io_return (Str s))"

text \<open>
  Reading a property, for the names the program reads (never an index or
  \<^verbatim>\<open>length\<close>): \<open>own_prop\<close> is the value of \<^verbatim>\<open>v[k]\<close> for a \<open>v\<close> that is not
  \<^verbatim>\<open>undefined\<close> or \<^verbatim>\<open>null\<close> (\<^verbatim>\<open>undefined\<close> when \<open>v\<close> has no such property);
  \<open>get_prop\<close> is the read itself, a \<^verbatim>\<open>TypeError\<close> on \<^verbatim>\<open>undefined\<close> and
  \<^verbatim>\<open>null\<close>.
\<close>

definition own_prop :: "jsval \<Rightarrow> string \<Rightarrow> jsval" where
  "own_prop v k =
     (case v of
        Obj kvs \<Rightarrow> (case map_of kvs k of None \<Rightarrow> Undefined | Some x \<Rightarrow> x)
      | _ \<Rightarrow> Undefined)"

definition get_prop :: "jsval \<Rightarrow> string \<Rightarrow> jsval io" where
  "get_prop v k =
     (if v = Undefined \<or> v = Null then io_throw TypeError else io_return (own_prop v k))"

definition single :: "host \<Rightarrow> jsval \<Rightarrow> string \<Rightarrow> string \<Rightarrow> unit io" where
  "single h data output_directory rel =
     (if \<not> truthy data then io_return ()
      else
        let abs_path = path_join [output_directory, rel] in
        io_then (mkdirpSync h (path_dirname abs_path))
          (if endsWith abs_path ''.yaml''
           then io_bind (yamldump h data) (writeFileSync h abs_path)
           else writeFileSync h abs_path data))"

text \<open>The loop of \<^verbatim>\<open>composite\<close> over the formats.\<close>

fun composite_formats :: "host \<Rightarrow> jsval \<Rightarrow> string \<Rightarrow> string list \<Rightarrow> unit io" where
  "composite_formats h data abs_path [] = io_return ()"
| "composite_formats h data abs_path (format # formats) =
     io_then
       (io_bind (get_prop data format) (\<lambda>v.
          if truthy v
          then io_then (mkdirpSync h (path_dirname abs_path))
                 (writeFileSync h (abs_path @ ''.'' @ format) v)
          else io_return ()))
       (composite_formats h data abs_path formats)"

definition composite :: "host \<Rightarrow> jsval \<Rightarrow> string \<Rightarrow> string \<Rightarrow> unit io" where
  "composite h data output_directory rel =
     (if \<not> truthy data then io_return ()
      else
        let abs_path = path_join [output_directory, rel] in
        io_then
          (io_bind (get_prop data ''yaml'') (\<lambda>y.
             if truthy y
             then io_then (mkdirpSync h (path_dirname abs_path))
                    (io_bind (yamldump h y) (writeFileSync h (abs_path @ ''.yaml'')))
             else io_return ()))
          (composite_formats h data abs_path [''svg'', ''dxf'', ''jscad'']))"

subsection \<open>Resolving the config\<close>

text \<open>
  \<^verbatim>\<open>ergogen.inject(type, name, value)\<close>: the call is recorded, then the engine
  accepts or throws.
\<close>

definition inject :: "host \<Rightarrow> injection \<Rightarrow> unit io" where
  "inject h i t =
     (case ergogen_inject h (injected t) i of
        Some e \<Rightarrow> (Inl e, t @ [Inject i])
      | None \<Rightarrow> (Inr (), t @ [Inject i]))"

fun inject_each :: "host \<Rightarrow> injection list \<Rightarrow> unit io" where
  "inject_each h [] = io_return ()"
| "inject_each h (i # injections) = io_then (inject h i) (inject_each h injections)"

definition dq :: string where
  "dq = [CHR 0x22]"

definition read_config :: "host \<Rightarrow> fnode \<Rightarrow> string \<Rightarrow> string io" where
  "read_config h root config_file =
     io_catch
       (io_bind
          (if endsWith config_file ''.zip'' \<or> endsWith config_file ''.ekb'' then
             io_then (console_log ''Analyzing bundle...'')
               (io_bind (io_lift (readFileSync h root config_file)) (\<lambda>bytes.
                io_bind (io_lift (jszip_loadAsync h bytes)) (\<lambda>z.
                io_lift (io_unpack h z))))
           else
             io_bind (io_lift (statSync_isDirectory h root config_file)) (\<lambda>is_dir.
               if is_dir then
                 io_then (console_log ''Analyzing folder...'')
                   (io_bind (io_lift (zip_from_dir h root config_file)) (\<lambda>z.
                    io_lift (io_unpack h z)))
               else
                 io_bind (io_lift (readFileSync h root config_file)) (\<lambda>text.
                 io_return (text, []))))
          (\<lambda>(config_text, injections).
             io_then (inject_each h injections) (io_return config_text)))
       (\<lambda>err.
          io_then
            (console_error (''Could not read config file '' @ dq @ config_file @ dq @ ''!''))
            (io_throw err))"

subsection \<open>Generating\<close>

text \<open>
  \<^verbatim>\<open>ergogen.process(config_text, debug, s => console.log(s))\<close>: the call, the lines
  the engine logs, then its result or its error.
\<close>

definition process_context :: "host \<Rightarrow> string \<Rightarrow> bool \<Rightarrow> jsval io" where
  "process_context h config_text debug t =
     (case ergogen_process h (injected t) config_text debug of
        (lines, r) \<Rightarrow> (r, t @ [Process config_text debug] @ map Log lines))"

fun digit_char :: "nat \<Rightarrow> char" where
  "digit_char n = char_of (48 + n)"

fun show_nat :: "nat \<Rightarrow> string" where
  "show_nat n = (if n < 10 then [digit_char n] else show_nat (n div 10) @ [digit_char (n mod 10)])"

text \<open>
  \<^verbatim>\<open>Object.entries\<close>: a \<^verbatim>\<open>TypeError\<close> for \<^verbatim>\<open>undefined\<close> and \<^verbatim>\<open>null\<close>, the
  indexed elements of an array or of a string, nothing for the other primitives.
\<close>

definition entries :: "jsval \<Rightarrow> (string \<times> jsval) list io" where
  "entries v =
     (case v of
        Undefined \<Rightarrow> io_throw TypeError
      | Null \<Rightarrow> io_throw TypeError
      | Obj kvs \<Rightarrow> io_return kvs
      | Arr vs \<Rightarrow> io_return (map (\<lambda>(i, x). (show_nat i, x)) (enumerate 0 vs))
      | Str s \<Rightarrow> io_return (map (\<lambda>(i, c). (show_nat i, Str [c])) (enumerate 0 s))
      | _ \<Rightarrow> io_return [])"

fun for_each :: "('a \<Rightarrow> unit io) \<Rightarrow> 'a list \<Rightarrow> unit io" where
  "for_each body [] = io_return ()"
| "for_each body (x # xs) = io_then (body x) (for_each body xs)"

definition generate_output :: "host \<Rightarrow> jsval \<Rightarrow> string \<Rightarrow> bool \<Rightarrow> unit io" where
  "generate_output h results output_directory clean =
     io_then
       (if clean
        then io_then (console_log ''Cleaning output folder...'') (removeSync h output_directory)
        else io_return ())
    (io_then (console_log ''Writing output to disk...'')
    (io_then (mkdirpSync h output_directory)
    (io_bind (get_prop results ''raw'') (\<lambda>raw.
     io_then (single h raw output_directory ''source/raw.txt'')
    (io_bind (get_prop results ''canonical'') (\<lambda>canonical.
     io_then (single h canonical output_directory ''source/canonical.yaml'')
    (io_bind (get_prop results ''units'') (\<lambda>units.
     io_then (single h units output_directory ''points/units.yaml'')
    (io_bind (get_prop results ''points'') (\<lambda>points.
     io_then (single h points output_directory ''points/points.yaml'')
    (io_bind (get_prop results ''demo'') (\<lambda>demo.
     io_then (composite h demo output_directory ''points/demo'')
    (io_bind (io_bind (get_prop results ''outlines'') entries) (\<lambda>outlines.
     io_then (for_each (\<lambda>(name, outline).
                composite h outline output_directory (''outlines/'' @ name)) outlines)
    (io_bind (io_bind (get_prop results ''cases'') entries) (\<lambda>cases.
     io_then (for_each (\<lambda>(name, case').
                composite h case' output_directory (''cases/'' @ name)) cases)
    (io_bind (io_bind (get_prop results ''pcbs'') entries) (\<lambda>pcbs.
     for_each (\<lambda>(name, pcb).
       single h pcb output_directory (''pcbs/'' @ name @ ''.kicad_pcb'')) pcbs))))))))))))))))))"

definition generate :: "host \<Rightarrow> string \<Rightarrow> string \<Rightarrow> bool \<Rightarrow> bool \<Rightarrow> unit io" where
  "generate h config_text output_directory clean debug =
     io_then
       (io_catch
          (io_bind (process_context h config_text debug) (\<lambda>results.
             generate_output h results output_directory clean))
          (\<lambda>err. emit (LogThrown err)))
       (io_then (console_log ''Done.'') (console_log []))"

subsection \<open>The program\<close>

text \<open>
  The parsed command line: \<^verbatim>\<open>args._[0]\<close>, \<^verbatim>\<open>args.o\<close>, \<^verbatim>\<open>args.debug\<close>,
  \<^verbatim>\<open>args.clean\<close>, \<^verbatim>\<open>args.w\<close>. The parser hands a positional argument that
  reads as a number over as a number, any other as a string.
\<close>

datatype positional = PosNumber int | PosString string

record args =
  arg_config_file :: "positional option"
  arg_o :: string
  arg_debug :: bool
  arg_clean :: bool
  arg_w :: bool

text \<open>
  What has become of the process: it has exited with a code, or it stays alive on
  its watcher of \<open>config_file\<close>, holding \<open>config_text\<close>.
\<close>

datatype process = Exited nat | Watching string string

text \<open>
  A rejected promise nobody handles: the async main function and the async watch
  callback are both called without a handler. \<open>otherwise\<close> is what the process
  does when Node only warns.
\<close>

definition unhandled_rejection :: "host \<Rightarrow> process \<Rightarrow> process" where
  "unhandled_rejection h otherwise =
     (case unhandled_rejections h of Throw \<Rightarrow> Exited 1 | Warn \<Rightarrow> otherwise)"

text \<open>The main function from the first \<^verbatim>\<open>read_config\<close> on.\<close>

definition main_read :: "host \<Rightarrow> args \<Rightarrow> fnode \<Rightarrow> string \<Rightarrow> process io" where
  "main_read h a root config_file =
     io_bind (read_config h root config_file) (\<lambda>config_text.
       if arg_w a then
         io_then
           (console_log (''Watching '' @ dq @ config_file @ dq
                          @ '' for changes... (Ctrl+C to stop)''))
        (io_then (generate h config_text (arg_o a) (arg_clean a) (arg_debug a))
           (io_return (Watching config_file config_text)))
       else
         io_bind (read_config h root config_file) (\<lambda>config_text.
         io_then (generate h config_text (arg_o a) (arg_clean a) (arg_debug a))
           (io_return (Exited 0))))"

definition show_int :: "int \<Rightarrow> string" where
  "show_int n = (if n < 0 then ''-'' @ show_nat (nat (- n)) else show_nat (nat n))"

text \<open>
  The main function. A number is falsy when it is 0, and \<^verbatim>\<open>fs.existsSync\<close> is
  false for anything that is not a path.
\<close>

definition main :: "host \<Rightarrow> args \<Rightarrow> fnode \<Rightarrow> process \<times> event list" where
  "main h a root =
     (let greetings =
            [Log (''Ergogen v'' @ pkg_version h @ '' CLI''
                   @ (if arg_debug a then '' (Debug Mode)'' else [])),
             Log []];
          usage = (Exited 1, greetings @ [LogError ''Usage: ergogen <config_file> [options]'']);
          missing = (\<lambda>shown.
            (Exited 2,
             greetings @ [LogError (''Could not read config file '' @ dq @ shown @ dq
                                      @ '': File does not exist!'')]))
      in case arg_config_file a of
           None \<Rightarrow> usage
         | Some (PosNumber n) \<Rightarrow> if n = 0 then usage else missing (show_int n)
         | Some (PosString config_file) \<Rightarrow>
             if config_file = [] then usage
             else if \<not> existsSync h root config_file then missing config_file
             else
               (case main_read h a root config_file greetings of
                  (Inl err, t) \<Rightarrow> (unhandled_rejection h (Exited 0), t)
                | (Inr p, t) \<Rightarrow> (p, t)))"

text \<open>
  The callback given to \<^verbatim>\<open>fs.watch\<close>, run on the file system as it is when the
  notification arrives; it returns the config text held afterwards.
\<close>

definition watch_callback ::
  "host \<Rightarrow> args \<Rightarrow> string \<Rightarrow> string \<Rightarrow> string \<Rightarrow> fnode \<Rightarrow> string io" where
  "watch_callback h a config_file config_text event root =
     (if event \<noteq> ''change'' then io_return config_text
      else
        io_bind (read_config h root config_file) (\<lambda>new_config_text.
          if new_config_text = config_text then io_return config_text
          else
            io_then (console_log (dq @ config_file @ dq @ '' changed, regenerating...''))
           (io_then (generate h new_config_text (arg_o a) (arg_clean a) (arg_debug a))
              (io_return new_config_text))))"

text \<open>
  One notification (its kind, and the file system at that moment) delivered to the
  process; each callback runs to its end before the next notification is delivered.
\<close>

definition notify ::
  "host \<Rightarrow> args \<Rightarrow> process \<times> event list \<Rightarrow> string \<times> fnode \<Rightarrow> process \<times> event list" where
  "notify h a state notification =
     (case state of
        (Exited code, t) \<Rightarrow> (Exited code, t)
      | (Watching config_file config_text, t) \<Rightarrow>
          (case watch_callback h a config_file config_text
                  (fst notification) (snd notification) t of
             (Inl err, t') \<Rightarrow> (unhandled_rejection h (Watching config_file config_text), t')
           | (Inr new_text, t') \<Rightarrow> (Watching config_file new_text, t')))"

definition run :: "host \<Rightarrow> args \<Rightarrow> fnode \<Rightarrow> (string \<times> fnode) list \<Rightarrow> process \<times> event list" where
  "run h a root notifications = foldl (notify h a) (main h a root) notifications"

subsection \<open>Which events a computation adds\<close>

text \<open>
  \<open>emits P m\<close>: from any trace, \<open>m\<close> only appends events, and each of them
  satisfies \<open>P\<close>, whether \<open>m\<close> returns or throws.
\<close>

definition emits :: "(event \<Rightarrow> bool) \<Rightarrow> 'a io \<Rightarrow> bool" where
  "emits P m = (\<forall>t. \<exists>u. snd (m t) = t @ u \<and> list_all P u)"

fun resolver_event :: "event \<Rightarrow> bool" where
  "resolver_event (Log s) = True"
| "resolver_event (LogError s) = True"
| "resolver_event (Inject i) = True"
| "resolver_event _ = False"

text \<open>The events of a generation: the engine's run and every change of the output tree.\<close>

fun generation_event :: "event \<Rightarrow> bool" where
  "generation_event (Process c d) = True"
| "generation_event (Remove p) = True"
| "generation_event (Mkdirp p) = True"
| "generation_event (WriteFile p c) = True"
| "generation_event _ = False"

definition written :: "event list \<Rightarrow> (string \<times> string) list" where
  "written t = concat (map (\<lambda>ev. case ev of WriteFile p c \<Rightarrow> [(p, c)] | _ \<Rightarrow> []) t)"

text \<open>
  What \<open>composite\<close> may do for a payload: create directories, and write
  \<open>abs_path.g\<close> for a format \<open>g\<close> whose value in the payload is truthy.
\<close>

definition format_event :: "jsval \<Rightarrow> string \<Rightarrow> event \<Rightarrow> bool" where
  "format_event data abs_path ev =
     ((\<exists>d. ev = Mkdirp d) \<or>
      (\<exists>g c. ev = WriteFile (abs_path @ ''.'' @ g) c \<and> truthy (own_prop data g)))"

subsection \<open>Bundles\<close>

text \<open>
  The bundle a resolution yields, as its caller and the engine see it: the config
  text returned and the injections handed to the engine, in order.
\<close>

definition resolved_bundle :: "host \<Rightarrow> fnode \<Rightarrow> string \<Rightarrow> error + (string \<times> injection list)" where
  "resolved_bundle h root config_file =
     (case read_config h root config_file [] of
        (Inl e, t) \<Rightarrow> Inl e
      | (Inr config_text, t) \<Rightarrow> Inr (config_text, injected t))"

text \<open>
  The other side of the directory/archive equivalence, in the spec's words: archive
  the directory in memory, then unpack the resulting archive.
\<close>

definition archive_then_unpack :: "host \<Rightarrow> fnode \<Rightarrow> string \<Rightarrow> error + (string \<times> injection list)" where
  "archive_then_unpack h root dir =
     (case zip_from_dir h root dir of Inl e \<Rightarrow> Inl e | Inr z \<Rightarrow> io_unpack h z)"

text \<open>
  The three ways to a bundle, as plain functions of the file system: a path loaded
  as an archive (read whole, loaded as a zip, unpacked); a directory archived in
  memory and unpacked (\<open>archive_then_unpack\<close>, above); a path read as text, with
  no injection.
\<close>

definition load_archive :: "host \<Rightarrow> fnode \<Rightarrow> string \<Rightarrow> error + (string \<times> injection list)" where
  "load_archive h root p =
     (case readFileSync h root p of
        Inl e \<Rightarrow> Inl e
      | Inr bytes \<Rightarrow>
          (case jszip_loadAsync h bytes of Inl e \<Rightarrow> Inl e | Inr z \<Rightarrow> io_unpack h z))"

definition read_text :: "host \<Rightarrow> fnode \<Rightarrow> string \<Rightarrow> error + (string \<times> injection list)" where
  "read_text h root p =
     (case readFileSync h root p of Inl e \<Rightarrow> Inl e | Inr text \<Rightarrow> Inr (text, []))"

text \<open>
  What \<open>read_config\<close> does with the outcome of the way it took (lines 102 to 109):
  an error is logged with the path and thrown on; of a bundle the injections are
  handed to the engine in order and the text is returned, unless the engine throws,
  which is logged and thrown on likewise.
\<close>

definition could_not_read :: "string \<Rightarrow> event" where
  "could_not_read config_file =
     LogError (''Could not read config file '' @ dq @ config_file @ dq @ ''!'')"

definition register_bundle ::
  "host \<Rightarrow> string \<Rightarrow> error + (string \<times> injection list) \<Rightarrow> string io" where
  "register_bundle h config_file r t =
     (case r of
        Inl e \<Rightarrow> (Inl e, t @ [could_not_read config_file])
      | Inr (config_text, injections) \<Rightarrow>
          (case inject_each h injections t of
             (Inl e, t') \<Rightarrow> (Inl e, t' @ [could_not_read config_file])
           | (Inr u, t') \<Rightarrow> (Inr config_text, t')))"

subsection \<open>An example host\<close>

text \<open>
  Modelled from the spec: \<^verbatim>\<open>io.unpack\<close> (\<^verbatim>\<open>io.js\<close> is not among the sources), on
  the spec's scenario of a folder with \<^verbatim>\<open>config.yaml\<close> and
  \<^verbatim>\<open>footprints/custom.js\<close>: the config text is the text of \<^verbatim>\<open>config.yaml\<close>, and
  each file under \<^verbatim>\<open>footprints/\<close> is one injection whose type is the category its
  subpath implies. Without a \<^verbatim>\<open>config.yaml\<close> it throws. It is the \<open>io_unpack\<close> of
  the example host only; the general statements hold for every \<open>io_unpack\<close>.
\<close>

definition demo_unpack :: "jszip \<Rightarrow> error + (string \<times> injection list)" where
  "demo_unpack z =
     (case map_of z ''config.yaml'' of
        Some (ZFile (Inr text)) \<Rightarrow>
          Inr (text,
               concat (map (\<lambda>(name, e).
                 case e of
                   ZFile (Inr v) \<Rightarrow>
                     if prefix ''footprints/'' name then [(''footprint'', drop 11 name, v)] else []
                 | _ \<Rightarrow> []) z))
      | _ \<Rightarrow> Inl (Thrown ''no config''))"

text \<open>
  A host for the closed examples below. Its archive loader accepts the bytes \<open>PK\<close>
  only, its engine accepts every injection and fails on an empty config.
\<close>

definition demo_host :: host where
  "demo_host =
     \<lparr> cwd = ''/home/u'', pkg_version = ''4.1.0'', unhandled_rejections = Throw,
       jszip_loadAsync = (\<lambda>bytes.
         if bytes = ''PK'' then Inr [(''config.yaml'', ZFile (Inr ''points: {}''))]
         else Inl (Thrown ''not a zip'')),
       io_unpack = demo_unpack,
       ergogen_inject = (\<lambda>registered i. None),
       ergogen_process = (\<lambda>registered config_text debug.
         if config_text = [] then ([], Inl (Thrown ''empty config''))
         else ([], Inr (Obj [(''raw'', Str config_text), (''outlines'', Obj []),
                            (''cases'', Obj []), (''pcbs'', Obj [])]))),
       yaml_dump = (\<lambda>indent noRefs v. Inr ''{}''),
       fs_fault = (\<lambda>t ev. None) \<rparr>"

text \<open>The same host on an output tree that refuses every operation.\<close>

definition readonly_host :: host where
  "readonly_host = demo_host\<lparr>fs_fault := (\<lambda>t ev. Some EACCES)\<rparr>"

text \<open>
  A file system with a folder config, a plain config, a bundle and a folder whose
  name ends like a bundle's; the command line of a single-shot run on the folder.
\<close>

definition demo_root :: fnode where
  "demo_root =
     Dir [(''home'', Dir [(''u'', Dir
       [(''kb'', Dir [(''config.yaml'', File ''points: {}''),
                      (''footprints'', Dir [(''custom.js'', File ''module.exports = {}'')])]),
        (''config.yaml'', File ''points: {}''),
        (''kb.zip'', File ''PK''),
        (''keeb.ekb'', Dir [(''config.yaml'', File ''points: {}'')])])])]"

definition demo_args :: args where
  "demo_args =
     \<lparr> arg_config_file = Some (PosString ''kb''), arg_o = ''/home/u/output'', arg_debug = False,
       arg_clean = False, arg_w = False \<rparr>"

text \<open>
  The folder config while an editor saves it (\<^verbatim>\<open>config.yaml\<close> is not there for a
  moment), and after the save.
\<close>

definition demo_root_saving :: fnode where
  "demo_root_saving =
     Dir [(''home'', Dir [(''u'', Dir
       [(''kb'', Dir [(''footprints'', Dir [(''custom.js'', File ''module.exports = {}'')])])])])]"

definition demo_root_edited :: fnode where
  "demo_root_edited =
     Dir [(''home'', Dir [(''u'', Dir
       [(''kb'', Dir [(''config.yaml'', File ''points: {a: 1}''),
                      (''footprints'', Dir [(''custom.js'', File ''module.exports = {}'')])])])])]"

section \<open>Properties\<close>

subsection \<open>Traces\<close>

lemma emitsI: "(\<And>t. \<exists>u. snd (m t) = t @ u \<and> list_all P u) \<Longrightarrow> emits P m"
  by (simp add: emits_def)

lemma emitsD: "emits P m \<Longrightarrow> \<exists>u. snd (m t) = t @ u \<and> list_all P u"
  by (simp add: emits_def)

lemma emits_return: "emits P (io_return x)"
  by (simp add: emits_def io_return_def)

lemma emits_throw: "emits P (io_throw e)"
  by (simp add: emits_def io_throw_def)

lemma emits_lift: "emits P (io_lift r)"
  by (simp add: emits_def io_lift_def)

lemma emits_emit: "P ev \<Longrightarrow> emits P (emit ev)"
  by (simp add: emits_def emit_def)

lemma emits_bind:
  assumes m: "emits P m" and f: "\<And>x. emits P (f x)"
  shows "emits P (io_bind m f)"
proof (rule emitsI)
  fix t
  from emitsD [OF m, of t] obtain u where u: "snd (m t) = t @ u" "list_all P u" by blast
  show "\<exists>w. snd (io_bind m f t) = t @ w \<and> list_all P w"
  proof (cases "fst (m t)")
    case (Inl e)
    with u show ?thesis
      by (cases "m t") (auto simp: io_bind_def)
  next
    case (Inr x)
    from emitsD [OF f, of x "t @ u"] obtain v
      where v: "snd (f x (t @ u)) = (t @ u) @ v" "list_all P v" by blast
    from Inr u v show ?thesis
      by (cases "m t") (auto simp: io_bind_def)
  qed
qed

lemma emits_then: "emits P m \<Longrightarrow> emits P n \<Longrightarrow> emits P (io_then m n)"
  by (simp add: io_then_def emits_bind)

lemma emits_catch:
  assumes m: "emits P m" and f: "\<And>e. emits P (f e)"
  shows "emits P (io_catch m f)"
proof (rule emitsI)
  fix t
  from emitsD [OF m, of t] obtain u where u: "snd (m t) = t @ u" "list_all P u" by blast
  show "\<exists>w. snd (io_catch m f t) = t @ w \<and> list_all P w"
  proof (cases "fst (m t)")
    case (Inr x)
    with u show ?thesis
      by (cases "m t") (auto simp: io_catch_def)
  next
    case (Inl e)
    from emitsD [OF f, of e "t @ u"] obtain v
      where v: "snd (f e (t @ u)) = (t @ u) @ v" "list_all P v" by blast
    from Inl u v show ?thesis
      by (cases "m t") (auto simp: io_catch_def)
  qed
qed

lemma emits_if: "emits P m \<Longrightarrow> emits P n \<Longrightarrow> emits P (if b then m else n)"
  by simp

lemma emits_fs_do: "P ev \<Longrightarrow> emits P (fs_do h ev)"
  by (simp add: emits_def fs_do_def split: option.splits)

lemma emits_inject: "P (Inject i) \<Longrightarrow> emits P (inject h i)"
  by (simp add: emits_def inject_def split: option.splits)

lemma emits_inject_each: "(\<And>i. P (Inject i)) \<Longrightarrow> emits P (inject_each h injections)"
  by (induction injections) (simp_all add: emits_return emits_then emits_inject)

lemma emits_read_config: "emits resolver_event (read_config h root config_file)"
  unfolding read_config_def console_log_def console_error_def
  by (intro emits_catch emits_bind emits_then emits_if emits_lift emits_return emits_throw
        emits_emit emits_inject_each)
     (simp_all add: emits_inject_each emits_return emits_then split: prod.splits)

subsection \<open>The writers\<close>

lemma io_bind_return: "io_bind (io_return x) f = f x"
  by (rule ext) (simp add: io_bind_def io_return_def)

lemma get_prop_truthy: "truthy data \<Longrightarrow> get_prop data k = io_return (own_prop data k)"
  by (auto simp: get_prop_def)

lemma emits_writeFileSync:
  "(\<And>s. data = Str s \<Longrightarrow> P (WriteFile p s)) \<Longrightarrow> emits P (writeFileSync h p data)"
  by (cases data) (simp_all add: writeFileSync_def emits_throw emits_fs_do)

lemma emits_write_format:
  assumes "truthy (own_prop data g)"
  shows "emits (format_event data abs_path)
           (io_then (mkdirpSync h (path_dirname abs_path))
              (writeFileSync h (abs_path @ ''.'' @ g) (own_prop data g)))"
proof (intro emits_then emits_writeFileSync)
  show "emits (format_event data abs_path) (mkdirpSync h (path_dirname abs_path))"
    by (simp add: mkdirpSync_def emits_fs_do format_event_def)
next
  fix s
  from assms show "format_event data abs_path (WriteFile (abs_path @ ''.'' @ g) s)"
    unfolding format_event_def by blast
qed

lemma emits_format_step:
  assumes "truthy data"
  shows "emits (format_event data abs_path)
           (io_bind (get_prop data g) (\<lambda>v.
              if truthy v
              then io_then (mkdirpSync h (path_dirname abs_path))
                     (writeFileSync h (abs_path @ ''.'' @ g) v)
              else io_return ()))"
proof (cases "truthy (own_prop data g)")
  case True
  with assms emits_write_format [OF True, of abs_path h] show ?thesis
    by (simp add: get_prop_truthy io_bind_return)
next
  case False
  with assms show ?thesis
    by (simp add: get_prop_truthy io_bind_return emits_return)
qed

lemma emits_composite_formats:
  assumes "truthy data"
  shows "emits (format_event data abs_path) (composite_formats h data abs_path formats)"
proof (induction formats)
  case Nil
  show ?case by (simp add: emits_return)
next
  case (Cons g formats)
  from emits_then [OF emits_format_step [OF assms] Cons.IH] show ?case by simp
qed

lemma emits_yamldump_write:
  assumes "\<And>s. P (WriteFile p s)"
  shows "emits P (io_bind (yamldump h y) (writeFileSync h p))"
proof (cases "yaml_dump h 4 True y")
  case (Inl e)
  then have "io_bind (yamldump h y) (writeFileSync h p) = io_throw e"
    by (intro ext) (simp add: yamldump_def io_bind_def io_throw_def)
  then show ?thesis by (simp add: emits_throw)
next
  case (Inr s)
  then have "io_bind (yamldump h y) (writeFileSync h p) = fs_do h (WriteFile p s)"
    by (intro ext) (simp add: yamldump_def io_bind_def io_return_def writeFileSync_def)
  with assms show ?thesis by (simp add: emits_fs_do)
qed

lemma emits_composite:
  assumes "truthy data"
  shows "emits (format_event data (path_join [output_directory, rel]))
           (composite h data output_directory rel)"
proof -
  let ?abs = "path_join [output_directory, rel]"
  have yaml: "emits (format_event data ?abs)
      (io_then (mkdirpSync h (path_dirname ?abs))
         (io_bind (yamldump h (own_prop data ''yaml'')) (writeFileSync h (?abs @ ''.yaml''))))"
    if "truthy (own_prop data ''yaml'')"
  proof (intro emits_then emits_yamldump_write)
    show "emits (format_event data ?abs) (mkdirpSync h (path_dirname ?abs))"
      by (simp add: mkdirpSync_def emits_fs_do format_event_def)
  next
    fix s
    have "?abs @ ''.yaml'' = ?abs @ ''.'' @ ''yaml''" by simp
    with that show "format_event data ?abs (WriteFile (?abs @ ''.yaml'') s)"
      unfolding format_event_def by blast
  qed
  have first: "emits (format_event data ?abs)
      (io_bind (get_prop data ''yaml'') (\<lambda>y.
         if truthy y
         then io_then (mkdirpSync h (path_dirname ?abs))
                (io_bind (yamldump h y) (writeFileSync h (?abs @ ''.yaml'')))
         else io_return ()))"
    using assms yaml by (simp add: get_prop_truthy io_bind_return emits_return)
  from assms have eq: "composite h data output_directory rel =
      io_then
        (io_bind (get_prop data ''yaml'') (\<lambda>y.
           if truthy y
           then io_then (mkdirpSync h (path_dirname ?abs))
                  (io_bind (yamldump h y) (writeFileSync h (?abs @ ''.yaml'')))
           else io_return ()))
        (composite_formats h data ?abs [''svg'', ''dxf'', ''jscad''])"
    unfolding composite_def Let_def by (simp only: not_True_eq_False if_False)
  show ?thesis
    unfolding eq by (rule emits_then [OF first emits_composite_formats [OF assms]])
qed

text \<open>
  C5. Given an absent payload (\<^verbatim>\<open>undefined\<close>, or \<^verbatim>\<open>null\<close>), \<open>single\<close> and
  \<open>composite\<close> return at once: the trace is unchanged, so no file is written and
  no directory is created.
\<close>

theorem absent_payload_is_noop:
  "single h Undefined output_directory rel t = (Inr (), t) \<and>
   single h Null output_directory rel t = (Inr (), t) \<and>
   composite h Undefined output_directory rel t = (Inr (), t) \<and>
   composite h Null output_directory rel t = (Inr (), t)"
  by (simp add: single_def composite_def io_return_def)

text \<open>
  C10. The writers test truthiness: for every falsy payload (the absent ones, and
  also the empty string, 0 and \<^verbatim>\<open>false\<close>) \<open>single\<close> and \<open>composite\<close> do nothing;
  and for a truthy composite payload no file \<open>abs_path.format\<close> is written for a
  format whose value in the payload is falsy (or missing).
\<close>

theorem falsy_payload_is_dropped:
  "(\<not> truthy v \<longrightarrow>
      single h v output_directory rel t = (Inr (), t) \<and>
      composite h v output_directory rel t = (Inr (), t)) \<and>
   \<not> truthy Undefined \<and> \<not> truthy Null \<and> \<not> truthy (Str []) \<and> \<not> truthy (Num 0) \<and>
   \<not> truthy (Bool False) \<and>
   (truthy data \<longrightarrow> \<not> truthy (own_prop data format) \<longrightarrow>
      (\<forall>c. WriteFile (path_join [output_directory, rel] @ ''.'' @ format) c
             \<notin> set (drop (length t) (snd (composite h data output_directory rel t)))))"
proof -
  have skip: "WriteFile (path_join [output_directory, rel] @ ''.'' @ format) c
             \<notin> set (drop (length t) (snd (composite h data output_directory rel t)))"
    if data: "truthy data" and falsy: "\<not> truthy (own_prop data format)" for c
  proof
    let ?abs = "path_join [output_directory, rel]"
    assume mem: "WriteFile (?abs @ ''.'' @ format) c
      \<in> set (drop (length t) (snd (composite h data output_directory rel t)))"
    from emitsD [OF emits_composite [OF data], of h output_directory rel t]
    obtain u where u: "snd (composite h data output_directory rel t) = t @ u"
      and all: "list_all (format_event data ?abs) u" by blast
    from mem u have "WriteFile (?abs @ ''.'' @ format) c \<in> set u" by simp
    with all have "format_event data ?abs (WriteFile (?abs @ ''.'' @ format) c)"
      by (simp add: list_all_iff)
    then obtain g where "?abs @ ''.'' @ format = ?abs @ ''.'' @ g" "truthy (own_prop data g)"
      unfolding format_event_def by blast
    with falsy show False by simp
  qed
  have noop: "single h v output_directory rel t = (Inr (), t) \<and>
      composite h v output_directory rel t = (Inr (), t)" if "\<not> truthy v"
    using that by (simp add: single_def composite_def io_return_def)
  from skip noop show ?thesis by simp
qed

theorem falsy_payload_is_dropped_witness:
  "single demo_host (Str []) ''/out'' ''source/raw.txt'' [] = (Inr (), []) \<and>
   composite demo_host (Num 0) ''/out'' ''points/demo'' [] = (Inr (), []) \<and>
   WriteFile ''/out/points/demo.svg'' []
     \<notin> set (snd (composite demo_host (Obj [(''svg'', Str []), (''dxf'', Str ''D'')])
                    ''/out'' ''points/demo'' []))"
proof -
  have a: "\<not> truthy (Str [])" by simp
  have b: "\<not> truthy (Num 0)" by simp
  have c: "truthy (Obj [(''svg'', Str []), (''dxf'', Str ''D'')])" by simp
  have d: "\<not> truthy (own_prop (Obj [(''svg'', Str []), (''dxf'', Str ''D'')]) ''svg'')"
    by (simp add: own_prop_def)
  have p: "path_join [''/out'', ''points/demo''] = ''/out/points/demo''"
    by code_simp
  from falsy_payload_is_dropped [of "Str []" demo_host "''/out''" "''source/raw.txt''" "[]"] a
  have 1: "single demo_host (Str []) ''/out'' ''source/raw.txt'' [] = (Inr (), [])" by blast
  from falsy_payload_is_dropped [of "Num 0" demo_host "''/out''" "''points/demo''" "[]"] b
  have 2: "composite demo_host (Num 0) ''/out'' ''points/demo'' [] = (Inr (), [])" by blast
  from falsy_payload_is_dropped [of Undefined demo_host "''/out''" "''points/demo''" "[]"
      "Obj [(''svg'', Str []), (''dxf'', Str ''D'')]" "''svg''"] c d
  have "WriteFile (path_join [''/out'', ''points/demo''] @ ''.'' @ ''svg'') []
     \<notin> set (drop (length ([]::event list)) (snd (composite demo_host (Obj [(''svg'', Str []), (''dxf'', Str ''D'')])
                    ''/out'' ''points/demo'' [])))" by blast
  then have 3: "WriteFile ''/out/points/demo.svg'' []
     \<notin> set (snd (composite demo_host (Obj [(''svg'', Str []), (''dxf'', Str ''D'')])
                    ''/out'' ''points/demo'' []))" by (simp add: p)
  from 1 2 3 show ?thesis by blast
qed


text \<open>
  C6, as amended. For a composite payload whose format tags are exactly \<^verbatim>\<open>svg\<close>
  and \<^verbatim>\<open>dxf\<close>, both with non-empty text, on a file system that accepts the
  operations, \<open>composite\<close> creates the parent directory and writes the two files
  \<open>abs_path.svg\<close> and \<open>abs_path.dxf\<close>, each with the payload's text as it is,
  and nothing else: no \<^verbatim>\<open>.yaml\<close> and no \<^verbatim>\<open>.jscad\<close> file.
\<close>

theorem composite_svg_dxf:
  assumes yaml: "map_of kvs ''yaml'' = None"
    and svg: "map_of kvs ''svg'' = Some (Str svg)" "svg \<noteq> []"
    and dxf: "map_of kvs ''dxf'' = Some (Str dxf)" "dxf \<noteq> []"
    and jscad: "map_of kvs ''jscad'' = None"
    and ok: "\<forall>t ev. fs_fault h t ev = None"
  shows "composite h (Obj kvs) output_directory rel t =
           (Inr (),
            t @ [Mkdirp (path_dirname (path_join [output_directory, rel])),
                 WriteFile (path_join [output_directory, rel] @ ''.svg'') svg,
                 Mkdirp (path_dirname (path_join [output_directory, rel])),
                 WriteFile (path_join [output_directory, rel] @ ''.dxf'') dxf])"
  using assms
  by (simp add: composite_def Let_def get_prop_def own_prop_def io_then_def io_bind_def
        io_return_def mkdirpSync_def writeFileSync_def fs_do_def)

theorem composite_svg_dxf_witness:
  "composite demo_host (Obj [(''svg'', Str ''<svg/>''), (''dxf'', Str ''0 SECTION'')])
     ''/out'' ''outlines/plate'' [] =
   (Inr (),
    [Mkdirp ''/out/outlines'', WriteFile ''/out/outlines/plate.svg'' ''<svg/>'',
     Mkdirp ''/out/outlines'', WriteFile ''/out/outlines/plate.dxf'' ''0 SECTION''])"
proof -
  have p: "path_join [''/out'', ''outlines/plate''] = ''/out/outlines/plate''" by code_simp
  have d: "path_dirname ''/out/outlines/plate'' = ''/out/outlines''" by code_simp
  have ok: "\<forall>t ev. fs_fault demo_host t ev = None" by (simp add: demo_host_def)
  from composite_svg_dxf [of "[(''svg'', Str ''<svg/>''), (''dxf'', Str ''0 SECTION'')]"
      "''<svg/>''" "''0 SECTION''" demo_host "''/out''" "''outlines/plate''" "[]", OF _ _ _ _ _ _ ok]
  show ?thesis by (simp add: p d)
qed

text \<open>
  C6 as stated fails for a payload whose \<^verbatim>\<open>svg\<close> text is empty: the tag is
  there, the test \<^verbatim>\<open>data[format]\<close> is false, and only the \<^verbatim>\<open>.dxf\<close> file
  is written.
\<close>

theorem composite_empty_svg_counterexample:
  "written (snd (composite demo_host (Obj [(''svg'', Str []), (''dxf'', Str ''0 SECTION'')])
                   ''/out'' ''outlines/plate'' [])) =
     [(''/out/outlines/plate.dxf'', ''0 SECTION'')]"
  by code_simp

subsection \<open>The orchestrator\<close>

lemma generate_result:
  "generate h config_text output_directory clean debug t =
     (Inr (),
      (case io_bind (process_context h config_text debug)
              (\<lambda>results. generate_output h results output_directory clean) t of
         (Inl err, t') \<Rightarrow> t' @ [LogThrown err]
       | (Inr u, t') \<Rightarrow> t') @ [Log ''Done.'', Log []])"
  by (simp add: generate_def io_then_def io_bind_def io_catch_def emit_def console_log_def
        split: prod.splits sum.splits)

lemma resolver_event_no_process: "list_all resolver_event u \<Longrightarrow> Process c d \<notin> set u"
  by (auto simp: list_all_iff)

lemma read_config_trace:
  obtains u where "snd (read_config h root config_file t) = t @ u" "list_all resolver_event u"
  using emitsD [OF emits_read_config] by blast

lemma main_read_single_shot:
  assumes single_shot: "\<not> arg_w a"
  shows "(\<exists>t'. main_read h a root config_file t
               = (Inr (Exited 0), t' @ [Log ''Done.'', Log []])) \<or>
         (\<exists>e u. main_read h a root config_file t = (Inl e, t @ u) \<and>
                list_all resolver_event u)"
proof -
  obtain r1 t1 where first: "read_config h root config_file t = (r1, t1)"
    by (cases "read_config h root config_file t")
  obtain u1 where u1: "t1 = t @ u1" "list_all resolver_event u1"
    using read_config_trace [of h root config_file t] first by auto
  show ?thesis
  proof (cases r1)
    case (Inl e)
    with first single_shot have "main_read h a root config_file t = (Inl e, t1)"
      by (simp add: main_read_def io_bind_def)
    with u1 show ?thesis by blast
  next
    case (Inr text1)
    obtain r2 t2 where second: "read_config h root config_file t1 = (r2, t2)"
      by (cases "read_config h root config_file t1")
    obtain u2 where u2: "t2 = t1 @ u2" "list_all resolver_event u2"
      using read_config_trace [of h root config_file t1] second by auto
    show ?thesis
    proof (cases r2)
      case (Inl e)
      with Inr first second single_shot
      have "main_read h a root config_file t = (Inl e, t2)"
        by (simp add: main_read_def io_bind_def)
      moreover from u1 u2 have "t2 = t @ (u1 @ u2)" "list_all resolver_event (u1 @ u2)"
        by simp_all
      ultimately show ?thesis by blast
    next
      case (Inr text2)
      with \<open>r1 = Inr text1\<close> first second single_shot
      have "main_read h a root config_file t =
          (Inr (Exited 0), snd (generate h text2 (arg_o a) (arg_clean a) (arg_debug a) t2))"
        by (simp add: main_read_def io_bind_def io_then_def io_return_def generate_result)
      then show ?thesis by (simp add: generate_result)
    qed
  qed
qed

lemma single_shot_generates_or_not:
  assumes single_shot: "\<not> arg_w a"
  shows "(fst (main h a root) = Exited 0 \<and>
          (\<exists>t'. snd (main h a root) = t' @ [Log ''Done.'', Log []])) \<or>
         (\<forall>c d. Process c d \<notin> set (snd (main h a root)))"
proof (cases "arg_config_file a")
  case None
  then show ?thesis by (simp add: main_def Let_def)
next
  case (Some arg)
  show ?thesis
  proof (cases arg)
    case (PosNumber n)
    with Some show ?thesis by (simp add: main_def Let_def)
  next
    case (PosString config_file)
    let ?greetings = "[Log (''Ergogen v'' @ pkg_version h @ '' CLI''
                     @ (if arg_debug a then '' (Debug Mode)'' else [])), Log []]"
    show ?thesis
    proof (cases "config_file = [] \<or> \<not> existsSync h root config_file")
      case True
      with Some PosString show ?thesis by (auto simp: main_def Let_def)
    next
      case False
      with Some PosString have main: "main h a root =
          (case main_read h a root config_file ?greetings of
             (Inl err, t) \<Rightarrow> (unhandled_rejection h (Exited 0), t)
           | (Inr p, t) \<Rightarrow> (p, t))"
        by (simp add: main_def Let_def)
      from main_read_single_shot [OF single_shot, of h root config_file ?greetings]
      show ?thesis
      proof
        assume "\<exists>t'. main_read h a root config_file ?greetings
               = (Inr (Exited 0), t' @ [Log ''Done.'', Log []])"
        with main show ?thesis by auto
      next
        assume "\<exists>e u. main_read h a root config_file ?greetings = (Inl e, ?greetings @ u) \<and>
                list_all resolver_event u"
        then obtain e u where failed: "main_read h a root config_file ?greetings
              = (Inl e, ?greetings @ u)" and u: "list_all resolver_event u"
          by blast
        from main failed resolver_event_no_process [OF u] show ?thesis by auto
      qed
    qed
  qed
qed

text \<open>
  C2. \<open>generate\<close> never throws: whatever the engine and the output tree do, it
  returns normally and its last two lines are \<^verbatim>\<open>Done.\<close> and an empty line. An
  error of the engine, and an error while the results are written, is logged
  (\<^verbatim>\<open>console.error(err)\<close>) right before them. And a single-shot run that got as
  far as calling the engine exits with code 0, after \<^verbatim>\<open>Done.\<close>.
\<close>

theorem generate_isolates_failures:
  "fst (generate h config_text output_directory clean debug t) = Inr () \<and>
   (\<exists>t'. snd (generate h config_text output_directory clean debug t)
           = t' @ [Log ''Done.'', Log []]) \<and>
   (ergogen_process h (injected t) config_text debug = (lines, Inl err) \<longrightarrow>
      snd (generate h config_text output_directory clean debug t)
        = t @ [Process config_text debug] @ map Log lines
            @ [LogThrown err, Log ''Done.'', Log []]) \<and>
   (ergogen_process h (injected t) config_text debug = (lines, Inr results) \<longrightarrow>
    generate_output h results output_directory clean
        (t @ [Process config_text debug] @ map Log lines) = (Inl err, t1) \<longrightarrow>
      snd (generate h config_text output_directory clean debug t)
        = t1 @ [LogThrown err, Log ''Done.'', Log []]) \<and>
   (\<not> arg_w a \<longrightarrow> Process c d \<in> set (snd (main h a root)) \<longrightarrow>
      fst (main h a root) = Exited 0 \<and>
      (\<exists>t'. snd (main h a root) = t' @ [Log ''Done.'', Log []]))"
proof -
  have 1: "fst (generate h config_text output_directory clean debug t) = Inr ()"
    by (simp add: generate_result)
  have 2: "\<exists>t'. snd (generate h config_text output_directory clean debug t)
           = t' @ [Log ''Done.'', Log []]"
    by (simp add: generate_result)
  have 3: "snd (generate h config_text output_directory clean debug t)
        = t @ [Process config_text debug] @ map Log lines
            @ [LogThrown err, Log ''Done.'', Log []]"
    if "ergogen_process h (injected t) config_text debug = (lines, Inl err)"
    using that by (simp add: generate_result io_bind_def process_context_def)
  have 4: "snd (generate h config_text output_directory clean debug t)
        = t1 @ [LogThrown err, Log ''Done.'', Log []]"
    if "ergogen_process h (injected t) config_text debug = (lines, Inr results)"
      and "generate_output h results output_directory clean
        (t @ [Process config_text debug] @ map Log lines) = (Inl err, t1)"
    using that by (simp add: generate_result io_bind_def process_context_def)
  have 5: "fst (main h a root) = Exited 0 \<and>
      (\<exists>t'. snd (main h a root) = t' @ [Log ''Done.'', Log []])"
    if "\<not> arg_w a" and "Process c d \<in> set (snd (main h a root))"
    using single_shot_generates_or_not [OF that(1), of h root] that(2) by blast
  from 1 2 3 4 5 show ?thesis by blast
qed


theorem generate_isolates_failures_witness:
  "snd (generate demo_host [] ''/out'' False False [])
     = [Process [] False, LogThrown (Thrown ''empty config''), Log ''Done.'', Log []] \<and>
   snd (generate readonly_host ''points: {}'' ''/out'' False False [])
     = [Process ''points: {}'' False, Log ''Writing output to disk...'',
        LogThrown EACCES, Log ''Done.'', Log []] \<and>
   fst (main readonly_host (demo_args\<lparr>arg_config_file := Some (PosString ''config.yaml'')\<rparr>) demo_root)
     = Exited 0"
proof -
  let ?a = "demo_args\<lparr>arg_config_file := Some (PosString ''config.yaml'')\<rparr>"
  let ?results = "Obj [(''raw'', Str ''points: {}''), (''outlines'', Obj []),
                       (''cases'', Obj []), (''pcbs'', Obj [])]"
  have engine_fails: "ergogen_process demo_host (injected []) [] False
      = ([], Inl (Thrown ''empty config''))"
    by code_simp
  have engine_ok: "ergogen_process readonly_host (injected []) ''points: {}'' False
      = ([], Inr ?results)"
    by code_simp
  have write_fails: "generate_output readonly_host ?results ''/out'' False
      ([] @ [Process ''points: {}'' False] @ map Log [])
      = (Inl EACCES, [Process ''points: {}'' False, Log ''Writing output to disk...''])"
    by code_simp
  have single_shot: "\<not> arg_w ?a"
    by code_simp
  have reached: "Process ''points: {}'' False \<in> set (snd (main readonly_host ?a demo_root))"
    by code_simp
  from generate_isolates_failures [of demo_host "[]" "''/out''" False False "[]" "[]"
      "Thrown ''empty config''"] engine_fails
  have 1: "snd (generate demo_host [] ''/out'' False False [])
     = [Process [] False, LogThrown (Thrown ''empty config''), Log ''Done.'', Log []]"
    by simp
  from generate_isolates_failures [of readonly_host "''points: {}''" "''/out''" False False "[]"
      "[]" EACCES ?results "[Process ''points: {}'' False, Log ''Writing output to disk...'']"
      ?a "''points: {}''" False demo_root] engine_ok write_fails single_shot reached
  have 2: "snd (generate readonly_host ''points: {}'' ''/out'' False False [])
     = [Process ''points: {}'' False, Log ''Writing output to disk...'',
        LogThrown EACCES, Log ''Done.'', Log []]"
    and 3: "fst (main readonly_host ?a demo_root) = Exited 0"
    by simp_all
  from 1 2 3 show ?thesis by blast
qed

subsection \<open>The watch callback\<close>

lemma resolver_event_not_generation: "resolver_event ev \<Longrightarrow> \<not> generation_event ev"
  by (cases ev) simp_all

lemma resolver_events_not_generation:
  "list_all resolver_event u \<Longrightarrow> list_all (\<lambda>ev. \<not> generation_event ev) u"
  by (induction u) (simp_all add: resolver_event_not_generation)

text \<open>
  C4. A notification whose kind is not \<^verbatim>\<open>change\<close> is ignored: nothing happens and
  the held text stays. On a \<^verbatim>\<open>change\<close> whose re-resolved config text equals the
  held text, the callback does what the resolver does and nothing more: among the
  new events there is no engine run and no operation on the output tree, and the
  process keeps watching with the same text.
\<close>

theorem unchanged_config_is_not_regenerated:
  "(event \<noteq> ''change'' \<longrightarrow>
      watch_callback h a config_file config_text event root t = (Inr config_text, t) \<and>
      notify h a (Watching config_file config_text, t) (event, root)
        = (Watching config_file config_text, t)) \<and>
   (event = ''change'' \<longrightarrow> fst (read_config h root config_file t) = Inr config_text \<longrightarrow>
      (\<exists>u. read_config h root config_file t = (Inr config_text, t @ u) \<and>
           watch_callback h a config_file config_text event root t = (Inr config_text, t @ u) \<and>
           notify h a (Watching config_file config_text, t) (event, root)
             = (Watching config_file config_text, t @ u) \<and>
           list_all (\<lambda>ev. \<not> generation_event ev) u))"
proof -
  have ignored: "watch_callback h a config_file config_text event root t = (Inr config_text, t) \<and>
      notify h a (Watching config_file config_text, t) (event, root)
        = (Watching config_file config_text, t)"
    if "event \<noteq> ''change''"
    using that by (simp add: watch_callback_def notify_def io_return_def)
  have same: "\<exists>u. read_config h root config_file t = (Inr config_text, t @ u) \<and>
           watch_callback h a config_file config_text event root t = (Inr config_text, t @ u) \<and>
           notify h a (Watching config_file config_text, t) (event, root)
             = (Watching config_file config_text, t @ u) \<and>
           list_all (\<lambda>ev. \<not> generation_event ev) u"
    if change: "event = ''change''"
      and unchanged: "fst (read_config h root config_file t) = Inr config_text"
  proof -
    obtain u where u: "snd (read_config h root config_file t) = t @ u"
      "list_all resolver_event u"
      by (rule read_config_trace)
    from u(1) unchanged have rc: "read_config h root config_file t = (Inr config_text, t @ u)"
      by (cases "read_config h root config_file t") simp
    with change have cb:
      "watch_callback h a config_file config_text event root t = (Inr config_text, t @ u)"
      by (simp add: watch_callback_def io_bind_def io_return_def)
    then have "notify h a (Watching config_file config_text, t) (event, root)
             = (Watching config_file config_text, t @ u)"
      by (simp add: notify_def)
    with rc cb resolver_events_not_generation [OF u(2)] show ?thesis by blast
  qed
  from ignored same show ?thesis by blast
qed

theorem unchanged_config_is_not_regenerated_witness:
  "notify demo_host demo_args (Watching ''kb'' ''points: {}'', []) (''rename'', demo_root)
     = (Watching ''kb'' ''points: {}'', []) \<and>
   notify demo_host demo_args (Watching ''kb'' ''points: {}'', []) (''change'', demo_root)
     = (Watching ''kb'' ''points: {}'',
        [Log ''Analyzing folder...'', Inject (''footprint'', ''custom.js'', ''module.exports = {}'')])"
proof -
  have other: "''rename'' \<noteq> ''change''" by simp
  have resolved: "read_config demo_host demo_root ''kb'' []
      = (Inr ''points: {}'',
         [Log ''Analyzing folder...'', Inject (''footprint'', ''custom.js'', ''module.exports = {}'')])"
    by code_simp
  then have unchanged: "fst (read_config demo_host demo_root ''kb'' []) = Inr ''points: {}''"
    by simp
  from unchanged_config_is_not_regenerated
         [of "''rename''" demo_host demo_args "''kb''" "''points: {}''" demo_root "[]"] other
  have 1: "notify demo_host demo_args (Watching ''kb'' ''points: {}'', []) (''rename'', demo_root)
     = (Watching ''kb'' ''points: {}'', [])"
    by blast
  from unchanged_config_is_not_regenerated
         [of "''change''" demo_host demo_args "''kb''" "''points: {}''" demo_root "[]"] unchanged
  obtain u where "read_config demo_host demo_root ''kb'' [] = (Inr ''points: {}'', [] @ u)"
    and "notify demo_host demo_args (Watching ''kb'' ''points: {}'', []) (''change'', demo_root)
             = (Watching ''kb'' ''points: {}'', [] @ u)"
    by blast
  with resolved
  have 2: "notify demo_host demo_args (Watching ''kb'' ''points: {}'', []) (''change'', demo_root)
     = (Watching ''kb'' ''points: {}'',
        [Log ''Analyzing folder...'', Inject (''footprint'', ''custom.js'', ''module.exports = {}'')])"
    by simp
  from 1 2 show ?thesis by blast
qed

subsection \<open>The resolver\<close>

lemma injected_append: "injected (t @ u) = injected t @ injected u"
  by (induction t rule: injected.induct) simp_all

lemma inject_each_accepted_in_order:
  assumes "\<And>k. k < length injections \<Longrightarrow>
             ergogen_inject h (injected t @ take k injections) (injections ! k) = None"
  shows "inject_each h injections t = (Inr (), t @ map Inject injections)"
  using assms
proof (induction injections arbitrary: t)
  case Nil
  show ?case by (simp add: io_return_def)
next
  case (Cons i injections)
  from Cons.prems [of 0] have first: "ergogen_inject h (injected t) i = None" by simp
  have rest: "ergogen_inject h (injected (t @ [Inject i]) @ take k injections) (injections ! k)
      = None" if "k < length injections" for k
    using Cons.prems [of "Suc k"] that by (simp add: injected_append)
  from Cons.IH [of "t @ [Inject i]", OF rest] first show ?case
    by (simp add: io_then_def io_bind_def inject_def)
qed

lemma read_config_cases:
  "read_config h root config_file t =
     (if endsWith config_file ''.zip'' \<or> endsWith config_file ''.ekb''
      then register_bundle h config_file (load_archive h root config_file)
             (t @ [Log ''Analyzing bundle...''])
      else (case statSync_isDirectory h root config_file of
              Inl e \<Rightarrow> (Inl e, t @ [could_not_read config_file])
            | Inr True \<Rightarrow>
                register_bundle h config_file (archive_then_unpack h root config_file)
                  (t @ [Log ''Analyzing folder...''])
            | Inr False \<Rightarrow> register_bundle h config_file (read_text h root config_file) t))"
  by (simp add: read_config_def register_bundle_def load_archive_def archive_then_unpack_def
        read_text_def could_not_read_def io_catch_def io_bind_def io_then_def io_lift_def
        io_return_def io_throw_def console_log_def console_error_def emit_def
        split: sum.splits prod.splits bool.splits)


text \<open>
  C8. \<open>read_config\<close> dispatches three ways, in this order, and in no other way.
  A path ending in \<^verbatim>\<open>.zip\<close> or \<^verbatim>\<open>.ekb\<close> is loaded as an archive, whatever else
  it is and whether or not that succeeds. Any other path that is a directory is
  archived by \<open>zip_from_dir\<close> and unpacked the same way. Any other path is read as
  text, with an empty injection list. A path whose kind cannot be told is an error.
  In each case the outcome is treated alike: an error is logged with the path and
  thrown on, a bundle without injections returns its text and leaves the trace as
  it is, and the injections of a bundle go to the engine in order (here: when the
  engine accepts each of them after the ones before).
\<close>

theorem read_config_dispatch:
  "((endsWith config_file ''.zip'' \<or> endsWith config_file ''.ekb'') \<longrightarrow>
      read_config h root config_file t
        = register_bundle h config_file (load_archive h root config_file)
            (t @ [Log ''Analyzing bundle...''])) \<and>
   (\<not> (endsWith config_file ''.zip'' \<or> endsWith config_file ''.ekb'') \<longrightarrow>
      statSync_isDirectory h root config_file = Inr True \<longrightarrow>
      read_config h root config_file t
        = register_bundle h config_file (archive_then_unpack h root config_file)
            (t @ [Log ''Analyzing folder...''])) \<and>
   (\<not> (endsWith config_file ''.zip'' \<or> endsWith config_file ''.ekb'') \<longrightarrow>
      statSync_isDirectory h root config_file = Inr False \<longrightarrow>
      read_config h root config_file t
        = register_bundle h config_file (read_text h root config_file) t) \<and>
   (\<not> (endsWith config_file ''.zip'' \<or> endsWith config_file ''.ekb'') \<longrightarrow>
      statSync_isDirectory h root config_file = Inl e \<longrightarrow>
      read_config h root config_file t = (Inl e, t @ [could_not_read config_file])) \<and>
   register_bundle h config_file (Inl e) t = (Inl e, t @ [could_not_read config_file]) \<and>
   register_bundle h config_file (Inr (config_text, [])) t = (Inr config_text, t) \<and>
   ((\<forall>k<length injections.
        ergogen_inject h (injected t @ take k injections) (injections ! k) = None) \<longrightarrow>
      register_bundle h config_file (Inr (config_text, injections)) t
        = (Inr config_text, t @ map Inject injections))"
proof -
  have registered: "register_bundle h config_file (Inr (config_text, injections)) t
        = (Inr config_text, t @ map Inject injections)"
    if "\<forall>k<length injections.
        ergogen_inject h (injected t @ take k injections) (injections ! k) = None"
  proof -
    from that have "inject_each h injections t = (Inr (), t @ map Inject injections)"
      by (intro inject_each_accepted_in_order) blast
    then show ?thesis by (simp add: register_bundle_def)
  qed
  have failed: "register_bundle h config_file (Inl e) t
      = (Inl e, t @ [could_not_read config_file])"
    by (simp add: register_bundle_def)
  have plain: "register_bundle h config_file (Inr (config_text, [])) t = (Inr config_text, t)"
    by (simp add: register_bundle_def io_return_def)
  from registered failed plain show ?thesis
    by (simp add: read_config_cases)
qed

theorem read_config_dispatch_witness:
  "read_config demo_host demo_root ''kb.zip'' []
     = (Inr ''points: {}'', [Log ''Analyzing bundle...'']) \<and>
   read_config demo_host demo_root ''keeb.ekb'' []
     = (Inl EISDIR, [Log ''Analyzing bundle...'', could_not_read ''keeb.ekb'']) \<and>
   read_config demo_host demo_root ''kb'' []
     = (Inr ''points: {}'',
        [Log ''Analyzing folder...'',
         Inject (''footprint'', ''custom.js'', ''module.exports = {}'')]) \<and>
   read_config demo_host demo_root ''config.yaml'' [] = (Inr ''points: {}'', []) \<and>
   read_config demo_host demo_root ''nope'' [] = (Inl ENOENT, [could_not_read ''nope''])"
proof -
  let ?i = "(''footprint'', ''custom.js'', ''module.exports = {}'')"
  note dispatch = read_config_dispatch [where h = demo_host and root = demo_root]
  have a1: "endsWith ''kb.zip'' ''.zip'' \<or> endsWith ''kb.zip'' ''.ekb''" by code_simp
  have a2: "load_archive demo_host demo_root ''kb.zip'' = Inr (''points: {}'', [])"
    by code_simp
  have b1: "endsWith ''keeb.ekb'' ''.zip'' \<or> endsWith ''keeb.ekb'' ''.ekb''" by code_simp
  have b2: "load_archive demo_host demo_root ''keeb.ekb'' = Inl EISDIR" by code_simp
  have c1: "\<not> (endsWith ''kb'' ''.zip'' \<or> endsWith ''kb'' ''.ekb'')" by code_simp
  have c2: "statSync_isDirectory demo_host demo_root ''kb'' = Inr True" by code_simp
  have c3: "archive_then_unpack demo_host demo_root ''kb'' = Inr (''points: {}'', [?i])"
    by code_simp
  have c4: "\<forall>k<length [?i].
      ergogen_inject demo_host (injected [Log ''Analyzing folder...''] @ take k [?i]) ([?i] ! k)
        = None"
    by (simp add: demo_host_def)
  have d1: "\<not> (endsWith ''config.yaml'' ''.zip'' \<or> endsWith ''config.yaml'' ''.ekb'')"
    by code_simp
  have d2: "statSync_isDirectory demo_host demo_root ''config.yaml'' = Inr False" by code_simp
  have d3: "read_text demo_host demo_root ''config.yaml'' = Inr (''points: {}'', [])"
    by code_simp
  have e1: "\<not> (endsWith ''nope'' ''.zip'' \<or> endsWith ''nope'' ''.ekb'')" by code_simp
  have e2: "statSync_isDirectory demo_host demo_root ''nope'' = Inl ENOENT" by code_simp
  from dispatch [where config_file = "''kb.zip''" and t = "[]"] a1 a2
    dispatch [where config_file = "''kb.zip''" and t = "[Log ''Analyzing bundle...'']"
      and config_text = "''points: {}''"]
  have 1: "read_config demo_host demo_root ''kb.zip'' []
     = (Inr ''points: {}'', [Log ''Analyzing bundle...''])"
    by simp
  from dispatch [where config_file = "''keeb.ekb''" and t = "[]"] b1 b2
    dispatch [where config_file = "''keeb.ekb''" and t = "[Log ''Analyzing bundle...'']"
      and e = EISDIR]
  have 2: "read_config demo_host demo_root ''keeb.ekb'' []
     = (Inl EISDIR, [Log ''Analyzing bundle...'', could_not_read ''keeb.ekb''])"
    by simp
  from dispatch [where config_file = "''kb''" and t = "[]"] c1 c2 c3
    dispatch [where config_file = "''kb''" and t = "[Log ''Analyzing folder...'']"
      and config_text = "''points: {}''" and injections = "[?i]"] c4
  have 3: "read_config demo_host demo_root ''kb'' []
     = (Inr ''points: {}'', [Log ''Analyzing folder...'', Inject ?i])"
    by simp
  from dispatch [where config_file = "''config.yaml''" and t = "[]"
      and config_text = "''points: {}''"] d1 d2 d3
  have 4: "read_config demo_host demo_root ''config.yaml'' [] = (Inr ''points: {}'', [])"
    by simp
  from dispatch [where config_file = "''nope''" and t = "[]" and e = ENOENT] e1 e2
  have 5: "read_config demo_host demo_root ''nope'' [] = (Inl ENOENT, [could_not_read ''nope''])"
    by simp
  from 1 2 3 4 5 show ?thesis by blast
qed







subsection \<open>Runs of the program\<close>

text \<open>
  C1. A single-shot run on a folder with a main config and one injection resource.
  The bundle has one injection, but the main function resolves the config twice
  before it generates (once before the test of the watch flag, once more in the
  single-shot branch), so the engine's \<open>inject\<close> is called twice, both times
  before \<open>process\<close>.
\<close>

theorem single_shot_injects_twice:
  "resolved_bundle demo_host demo_root ''kb''
     = Inr (''points: {}'', [(''footprint'', ''custom.js'', ''module.exports = {}'')]) \<and>
   fst (main demo_host demo_args demo_root) = Exited 0 \<and>
   take 7 (snd (main demo_host demo_args demo_root))
     = [Log ''Ergogen v4.1.0 CLI'', Log [],
        Log ''Analyzing folder...'',
        Inject (''footprint'', ''custom.js'', ''module.exports = {}''),
        Log ''Analyzing folder...'',
        Inject (''footprint'', ''custom.js'', ''module.exports = {}''),
        Process ''points: {}'' False] \<and>
   injected (snd (main demo_host demo_args demo_root))
     = [(''footprint'', ''custom.js'', ''module.exports = {}''),
        (''footprint'', ''custom.js'', ''module.exports = {}'')]"
  by code_simp

text \<open>
  C3. A watch run in which a change notification arrives while the folder cannot be
  resolved. The error is logged with the path, and the callback throws it on; its
  promise is rejected and nobody handles it. Where Node ends the process on an
  unhandled rejection (its default), the process exits with code 1 and the next
  notification, which would have regenerated, is never processed. Where Node only
  warns, the process goes on watching and regenerates on the next notification.
\<close>

theorem watch_ends_on_resolution_error:
  "fst (run demo_host (demo_args\<lparr>arg_w := True\<rparr>) demo_root []) = Watching ''kb'' ''points: {}'' \<and>
   fst (run demo_host (demo_args\<lparr>arg_w := True\<rparr>) demo_root [(''change'', demo_root_saving)])
     = Exited 1 \<and>
   last (snd (run demo_host (demo_args\<lparr>arg_w := True\<rparr>) demo_root
                [(''change'', demo_root_saving)]))
     = LogError (''Could not read config file '' @ dq @ ''kb'' @ dq @ ''!'') \<and>
   run demo_host (demo_args\<lparr>arg_w := True\<rparr>) demo_root
       [(''change'', demo_root_saving), (''change'', demo_root_edited)]
     = run demo_host (demo_args\<lparr>arg_w := True\<rparr>) demo_root [(''change'', demo_root_saving)] \<and>
   fst (run (demo_host\<lparr>unhandled_rejections := Warn\<rparr>) (demo_args\<lparr>arg_w := True\<rparr>) demo_root
          [(''change'', demo_root_saving), (''change'', demo_root_edited)])
     = Watching ''kb'' ''points: {a: 1}''"
  by code_simp


end
